theory Spec2Isabelle
  imports Main
begin

section \<open>JavaScript values\<close>

text \<open>
  The repository holds two browser fragments: the form proxy of
  \<^verbatim>\<open>extensions/amp-form/0.1/form-proxy.js\<close> and the image comparison widget
  \<^verbatim>\<open>AmpPhotoSplitCompare\<close> that follows it in the same source file.  Both are
  embedded over one model of the document: elements are numbered nodes, and the fields
  of the document that the code reads or writes are fields of a record.

  Numbers are integers (pixel coordinates) plus \<open>NaN\<close>; fractional numbers are outside
  the model.  Functions of the engine are named by \<open>fn\<close>: the three attribute methods
  of \<open>Element.prototype\<close> that the legacy accessors call, any other native function
  (\<open>NOther k\<close>, interpreted by the engine), and \<open>Forward m\<close>, the closure
  \<^verbatim>\<open>function() { return method.apply(this.form_, arguments); }\<close> that the proxy
  constructor builds around a native method \<open>m\<close>.
\<close>

type_synonym node = nat

datatype fn = NGetAttribute | NSetAttribute | NRemoveAttribute | NOther nat | Forward fn

datatype jsval =
    JUndefined
  | JNull
  | JBool bool
  | JNum int
  | JNaN
  | JStr string
  | JNode node
  | JNodeList "node list"
  | JObj nat
  | JFun fn

datatype error = TypeError | RangeError | NotFoundError | AssertionError | Thrown nat

text \<open>Truthiness (\<open>ToBoolean\<close>), \<open>v == null\<close>, and \<open>ToString\<close> on the values that occur.\<close>

fun truthy :: "jsval \<Rightarrow> bool" where
  "truthy JUndefined = False"
| "truthy JNull = False"
| "truthy (JBool b) = b"
| "truthy (JNum n) = (n \<noteq> 0)"
| "truthy JNaN = False"
| "truthy (JStr s) = (s \<noteq> [])"
| "truthy (JNode n) = True"
| "truthy (JNodeList ns) = True"
| "truthy (JObj r) = True"
| "truthy (JFun f) = True"

fun eq_null :: "jsval \<Rightarrow> bool" where
  "eq_null JUndefined = True"
| "eq_null JNull = True"
| "eq_null v = False"

definition digit_char :: "nat \<Rightarrow> char" where
  "digit_char n = char_of (48 + n)"

fun show_nat :: "nat \<Rightarrow> string" where
  "show_nat n = (if n < 10 then [digit_char n] else show_nat (n div 10) @ [digit_char (n mod 10)])"

declare show_nat.simps [simp del]

definition show_int :: "int \<Rightarrow> string" where
  "show_int i = (if i < 0 then CHR ''-'' # show_nat (nat (- i)) else show_nat (nat i))"

fun to_string :: "jsval \<Rightarrow> string" where
  "to_string JUndefined = ''undefined''"
| "to_string JNull = ''null''"
| "to_string (JBool b) = (if b then ''true'' else ''false'')"
| "to_string (JNum n) = show_int n"
| "to_string JNaN = ''NaN''"
| "to_string (JStr s) = s"
| "to_string (JNode n) = ''[object HTMLElement]''"
| "to_string (JNodeList ns) = ''[object RadioNodeList]''"
| "to_string (JObj r) = ''[object Object]''"
| "to_string (JFun f) = ''function () { [native code] }''"

text \<open>\<open>name.toUpperCase()\<close> on ASCII property names.\<close>

definition upper_char :: "char \<Rightarrow> char" where
  "upper_char c = (let n = (of_char c :: nat) in if 97 \<le> n \<and> n \<le> 122 then char_of (n - 32) else c)"

definition toUpperCase :: "string \<Rightarrow> string" where
  "toUpperCase s = map upper_char s"

definition startsWith :: "string \<Rightarrow> string \<Rightarrow> bool" where
  \<comment> \<open>Modelled from the spec: helper imported from \<^verbatim>\<open>src/string\<close>, which is not among the
      sources; it is the prefix test its name and its use (\<^verbatim>\<open>startsWith(name, 'on')\<close>) say.\<close>
  "startsWith s p = (take (length p) s = p)"

text \<open>\<open>parseInt(s, 10)\<close>: leading white space, an optional sign, the longest digit prefix.\<close>

definition is_space :: "char \<Rightarrow> bool" where
  "is_space c = (c \<in> set [CHR '' '', CHR 0x09, CHR 0x0A, CHR 0x0B, CHR 0x0C, CHR 0x0D])"

definition is_digit :: "char \<Rightarrow> bool" where
  "is_digit c = (let n = (of_char c :: nat) in 48 \<le> n \<and> n \<le> 57)"

definition digits_value :: "string \<Rightarrow> nat" where
  "digits_value ds = foldl (\<lambda>acc c. 10 * acc + (of_char c - 48)) 0 ds"

definition parseInt10 :: "string \<Rightarrow> jsval" where
  "parseInt10 s =
     (let s1 = dropWhile is_space s;
          neg = (case s1 of [] \<Rightarrow> False | c # r \<Rightarrow> c = CHR ''-'');
          s2 = (case s1 of [] \<Rightarrow> [] | c # r \<Rightarrow> if c = CHR ''-'' \<or> c = CHR ''+'' then r else s1);
          ds = takeWhile is_digit s2
      in if ds = [] then JNaN
         else JNum (if neg then - int (digits_value ds) else int (digits_value ds)))"

section \<open>The document\<close>

text \<open>
  \<open>kids\<close> and \<open>parentNode\<close> are the tree; \<open>attrs\<close> the content attributes;
  \<open>style\<close> the strings assigned to the properties of \<open>element.style\<close> (the engine's
  validation of CSS values is not modelled: the store holds what the code assigned);
  \<open>props\<close> the other properties assigned on an element (\<open>src\<close>, \<open>height\<close>,
  \<open>width\<close>, and the expando \<open>$p\<close>); \<open>offsetLeft\<close> and \<open>computedWidth\<close> are
  what the layout engine reports; \<open>listeners\<close> is the list of registered event
  listeners in registration order.
\<close>

datatype handler = SliderBeginsMoving | WhileSliderMoving | WhenSliderStops

record dom =
  next_node :: nat
  localName :: "node \<Rightarrow> string"
  kids :: "node \<Rightarrow> node list"
  parentNode :: "node \<Rightarrow> node option"
  attrs :: "node \<Rightarrow> string \<rightharpoonup> string"
  className :: "node \<Rightarrow> string"
  style :: "node \<Rightarrow> string \<rightharpoonup> string"
  props :: "node \<Rightarrow> string \<rightharpoonup> jsval"
  offsetLeft :: "node \<Rightarrow> int"
  computedWidth :: "node \<Rightarrow> string"
  listeners :: "(node \<times> string \<times> handler) list"

definition createElement :: "string \<Rightarrow> 'a dom_scheme \<Rightarrow> node \<times> 'a dom_scheme" where
  "createElement tag d =
     (let n = next_node d
      in (n, d\<lparr>next_node := Suc n,
               localName := (localName d)(n := tag),
               kids := (kids d)(n := []),
               parentNode := (parentNode d)(n := None),
               attrs := (attrs d)(n := Map.empty),
               className := (className d)(n := []),
               style := (style d)(n := Map.empty),
               props := (props d)(n := Map.empty)\<rparr>))"

definition getAttribute :: "'a dom_scheme \<Rightarrow> node \<Rightarrow> string \<Rightarrow> string option" where
  "getAttribute d n a = attrs d n a"

definition attr_val :: "string option \<Rightarrow> jsval" where
  \<comment> \<open>the value of \<open>getAttribute\<close>: the string, or \<open>null\<close> when the attribute is missing\<close>
  "attr_val a = (case a of None \<Rightarrow> JNull | Some s \<Rightarrow> JStr s)"

definition plus_px :: "jsval \<Rightarrow> string" where
  \<comment> \<open>\<^verbatim>\<open>v + 'px'\<close>: \<open>null\<close> concatenates as the text \<open>null\<close>\<close>
  "plus_px v = to_string v @ ''px''"

definition setAttribute :: "'a dom_scheme \<Rightarrow> node \<Rightarrow> string \<Rightarrow> string \<Rightarrow> 'a dom_scheme" where
  "setAttribute d n a v = d\<lparr>attrs := (attrs d)(n := (attrs d n)(a \<mapsto> v))\<rparr>"

definition removeAttribute :: "'a dom_scheme \<Rightarrow> node \<Rightarrow> string \<Rightarrow> 'a dom_scheme" where
  "removeAttribute d n a = d\<lparr>attrs := (attrs d)(n := (attrs d n)(a := None))\<rparr>"

definition set_style :: "'a dom_scheme \<Rightarrow> node \<Rightarrow> string \<Rightarrow> string \<Rightarrow> 'a dom_scheme" where
  "set_style d n p v = d\<lparr>style := (style d)(n := (style d n)(p \<mapsto> v))\<rparr>"

definition get_style :: "'a dom_scheme \<Rightarrow> node \<Rightarrow> string \<Rightarrow> string" where
  \<comment> \<open>a style property that was never assigned reads as the empty string\<close>
  "get_style d n p = (case style d n p of None \<Rightarrow> [] | Some v \<Rightarrow> v)"

definition set_prop :: "'a dom_scheme \<Rightarrow> node \<Rightarrow> string \<Rightarrow> jsval \<Rightarrow> 'a dom_scheme" where
  "set_prop d n p v = d\<lparr>props := (props d)(n := (props d n)(p \<mapsto> v))\<rparr>"

definition set_className :: "'a dom_scheme \<Rightarrow> node \<Rightarrow> string \<Rightarrow> 'a dom_scheme" where
  "set_className d n c = d\<lparr>className := (className d)(n := c)\<rparr>"

text \<open>
  \<open>appendChild\<close> first takes the child out of its present parent.  The hierarchy check
  of the DOM (a node is never appended below itself) is not modelled.
\<close>

definition detach :: "'a dom_scheme \<Rightarrow> node \<Rightarrow> 'a dom_scheme" where
  "detach d c =
     (case parentNode d c of
        None \<Rightarrow> d
      | Some q \<Rightarrow> d\<lparr>kids := (kids d)(q := removeAll c (kids d q)),
                     parentNode := (parentNode d)(c := None)\<rparr>)"

definition appendChild :: "'a dom_scheme \<Rightarrow> node \<Rightarrow> node \<Rightarrow> 'a dom_scheme" where
  "appendChild d p c =
     (let d1 = detach d c
      in d1\<lparr>kids := (kids d1)(p := kids d1 p @ [c]),
             parentNode := (parentNode d1)(c := Some p)\<rparr>)"

fun next_in :: "'a \<Rightarrow> 'a list \<Rightarrow> 'a option" where
  "next_in x [] = None"
| "next_in x [y] = None"
| "next_in x (y # z # zs) = (if x = y then Some z else next_in x (z # zs))"

fun ins_before :: "'a \<Rightarrow> 'a \<Rightarrow> 'a list \<Rightarrow> 'a list" where
  "ins_before x r [] = [x]"
| "ins_before x r (y # ys) = (if y = r then x # y # ys else y # ins_before x r ys)"

definition nextSibling :: "'a dom_scheme \<Rightarrow> node \<Rightarrow> node option" where
  "nextSibling d n = (case parentNode d n of None \<Rightarrow> None | Some p \<Rightarrow> next_in n (kids d p))"

definition removeChild :: "'a dom_scheme \<Rightarrow> node \<Rightarrow> node \<Rightarrow> error + 'a dom_scheme" where
  "removeChild d p c =
     (if parentNode d c \<noteq> Some p then Inl NotFoundError else Inr (detach d c))"

definition insertBefore :: "'a dom_scheme \<Rightarrow> node \<Rightarrow> node \<Rightarrow> node option \<Rightarrow> error + 'a dom_scheme" where
  "insertBefore d p c r =
     (case r of
        None \<Rightarrow> Inr (appendChild d p c)
      | Some s \<Rightarrow>
          if parentNode d s \<noteq> Some p then Inl NotFoundError
          else if s = c then Inr d
          else (let d1 = detach d c
                in Inr (d1\<lparr>kids := (kids d1)(p := ins_before c s (kids d1 p)),
                            parentNode := (parentNode d1)(c := Some p)\<rparr>)))"

section \<open>The form proxy\<close>

subsection \<open>Prototypes, windows and proxy objects\<close>

text \<open>
  A property descriptor as \<open>Object.getOwnPropertyDescriptor\<close> returns it: \<open>dvalue\<close> is
  \<open>property.value\<close> (\<open>undefined\<close> for an accessor), \<open>dget\<close> and \<open>dset\<close> are
  \<open>property.get\<close> and \<open>property.set\<close>.  A class of the window is given by its prototype:
  the names that \<^verbatim>\<open>for (const name in prototype)\<close> enumerates, in order (inherited
  names included), and the own descriptors of the prototype.
\<close>

record descriptor =
  dvalue :: jsval
  dget :: "fn option"
  dset :: "fn option"

record klass =
  forin :: "string list"
  own :: "string \<rightharpoonup> descriptor"

text \<open>
  What \<open>FormProxy.prototype\<close> holds under a name: its initial \<open>constructor\<close> property,
  a forwarding method, or an accessor made of the forwarding getter and setter that exist.
\<close>

datatype binding = BConstructor | BMethod fn | BAccessor "fn option" "fn option"

type_synonym proxy_proto = "string \<rightharpoonup> binding"

record window =
  FormProxy :: "proxy_proto option"
  win_HTMLFormElement :: "klass option"
  win_HTMLElement :: "klass option"
  win_Element :: "klass option"
  win_Node :: "klass option"
  win_EventTarget :: "klass option"

datatype LegacyPropAccessType = ATTR | READ_ONCE

datatype LegacyPropDataType = URL | BOOL | TOGGLE

record legacy_desc =
  access :: LegacyPropAccessType
  attr :: "string option"
  ltype :: "LegacyPropDataType option"
  def :: "jsval option"

text \<open>
  The own properties of a proxy object: a data property (\<open>form_\<close>, set by the
  constructor), and the three accessors that \<open>setupLegacyProxy\<close> defines: the value read
  once, the attribute accessor with its attribute name and descriptor, and the direct
  accessor, which closes over the form.
\<close>

datatype own_prop =
    LData jsval
  | LReadOnce jsval
  | LAttr string legacy_desc
  | LDirect node

record proxy =
  p_proto :: proxy_proto
  p_own :: "string \<rightharpoonup> own_prop"

text \<open>
  The state of the page: the document, the module variable \<open>blacklistedProperties\<close>, the
  windows, the window of each form (\<open>form.ownerDocument.defaultView\<close>, non-null as the
  type annotation \<^verbatim>\<open>!Window\<close> of \<open>getFormProxyConstr\<close> requires), the proxy objects
  by reference, and \<open>legacy_calls\<close>, a log of the forms that \<open>setupLegacyProxy\<close> was
  called on (the only field that is not in the program: it records the calls).
\<close>

record page = dom +
  blacklistedProperties :: "string list option"
  windows :: "nat \<Rightarrow> window"
  defaultView :: "node \<Rightarrow> nat"
  heap :: "nat \<rightharpoonup> proxy"
  next_obj :: nat
  legacy_calls :: "node list"

text \<open>
  What the code takes from the engine and from modules that are not among the sources:
  the native value of a property of an element, not shadowed by a form field (reading it
  may throw), the native assignment, the names that \<open>for..in\<close> enumerates on a shallow
  clone of a form, the members of \<open>Object.prototype\<close>, the native functions other than the
  three attribute methods, and \<open>parseUrl(s).href\<close> of \<^verbatim>\<open>src/url\<close>.
\<close>

record engine =
  native_get :: "page \<Rightarrow> node \<Rightarrow> string \<Rightarrow> error + jsval"
  native_set :: "page \<Rightarrow> node \<Rightarrow> string \<Rightarrow> jsval \<Rightarrow> (error + jsval) \<times> page"
  clone_forin :: "page \<Rightarrow> node \<Rightarrow> string list"
  object_member :: "string \<Rightarrow> jsval"
  apply_other :: "nat \<Rightarrow> jsval \<Rightarrow> jsval list \<Rightarrow> page \<Rightarrow> (error + jsval) \<times> page"
  parseUrl_href :: "string \<Rightarrow> string"


subsection \<open>createFormProxyConstr: the walk over the prototype chain\<close>

definition blacklisted :: "string list option \<Rightarrow> string \<Rightarrow> bool" where
  "blacklisted bl name = (case bl of None \<Rightarrow> False | Some b \<Rightarrow> name \<in> set b)"

definition skipped :: "string \<Rightarrow> bool" where
  \<comment> \<open>constants and on-events\<close>
  "skipped name = (toUpperCase name = name \<or> startsWith name ''on'')"

definition binding_of :: "descriptor \<Rightarrow> binding" where
  \<comment> \<open>a function value gives a method, anything else an accessor of the getter and
      setter that the descriptor has\<close>
  "binding_of property =
     (case dvalue property of
        JFun method \<Rightarrow> BMethod method
      | _ \<Rightarrow> BAccessor (dget property) (dset property))"

definition bind_name :: "string list option \<Rightarrow> klass \<Rightarrow> proxy_proto \<Rightarrow> string \<Rightarrow> proxy_proto" where
  "bind_name bl k proto name =
     (case own k name of
        None \<Rightarrow> proto
      | Some property \<Rightarrow>
          if skipped name \<or> proto name \<noteq> None \<or> blacklisted bl name then proto
          else proto(name \<mapsto> binding_of property))"

definition walk_klass :: "string list option \<Rightarrow> proxy_proto \<Rightarrow> klass option \<Rightarrow> proxy_proto" where
  "walk_klass bl proto klass =
     (case klass of None \<Rightarrow> proto | Some k \<Rightarrow> foldl (bind_name bl k) proto (forin k))"

definition inheritance :: "window \<Rightarrow> klass option list" where
  "inheritance win =
     [win_HTMLFormElement win, win_HTMLElement win, win_Element win, win_Node win,
      win_EventTarget win]"

definition FormProxyProto0 :: proxy_proto where
  \<comment> \<open>the prototype of a new function has the own property \<open>constructor\<close>\<close>
  "FormProxyProto0 = [''constructor'' \<mapsto> BConstructor]"

definition createFormProxyConstr :: "string list option \<Rightarrow> window \<Rightarrow> proxy_proto" where
  "createFormProxyConstr bl win = foldl (walk_klass bl) FormProxyProto0 (inheritance win)"

definition getFormProxyConstr :: "page \<Rightarrow> nat \<Rightarrow> proxy_proto \<times> page" where
  "getFormProxyConstr st wid =
     (case FormProxy (windows st wid) of
        Some c \<Rightarrow> (c, st)
      | None \<Rightarrow>
          (let c = createFormProxyConstr (blacklistedProperties st) (windows st wid)
           in (c, st\<lparr>windows := (windows st)(wid := (windows st wid)\<lparr>FormProxy := Some c\<rparr>)\<rparr>)))"

definition new_FormProxy :: "proxy_proto \<Rightarrow> node \<Rightarrow> proxy" where
  \<comment> \<open>\<^verbatim>\<open>new constr(form)\<close>: \<^verbatim>\<open>this.form_ = form\<close>\<close>
  "new_FormProxy c form = \<lparr>p_proto = c, p_own = [''form_'' \<mapsto> LData (JNode form)]\<rparr>"

definition object_prototype_names :: "string list" where
  "object_prototype_names =
     [''constructor'', ''hasOwnProperty'', ''isPrototypeOf'', ''propertyIsEnumerable'',
      ''toLocaleString'', ''toString'', ''valueOf'', ''__proto__'', ''__defineGetter__'',
      ''__defineSetter__'', ''__lookupGetter__'', ''__lookupSetter__'']"


definition in_proxy :: "proxy \<Rightarrow> string \<Rightarrow> bool" where
  \<comment> \<open>\<^verbatim>\<open>name in proxy\<close>: own, on \<open>FormProxy.prototype\<close>, or on \<open>Object.prototype\<close>\<close>
  "in_proxy p name =
     (p_own p name \<noteq> None \<or> p_proto p name \<noteq> None \<or> name \<in> set object_prototype_names)"

subsection \<open>Named access on a form\<close>

text \<open>
  \<open>form[name]\<close>: the listed elements below the form whose \<open>id\<close> or \<open>name\<close> is the name
  shadow the native property; when there are none, the images do; one candidate is
  returned as the element, several as a node list.  (The \<open>form\<close> content attribute and
  the past names map of the HTML standard are not modelled.)  The descendants are
  collected in tree order, to a depth bounded by the number of nodes.
\<close>

fun descendants :: "'a dom_scheme \<Rightarrow> nat \<Rightarrow> node \<Rightarrow> node list" where
  "descendants d 0 n = []"
| "descendants d (Suc k) n = concat (map (\<lambda>c. c # descendants d k c) (kids d n))"

definition listed_tags :: "string list" where
  "listed_tags = [''button'', ''fieldset'', ''input'', ''object'', ''output'', ''select'', ''textarea'']"

definition is_named :: "'a dom_scheme \<Rightarrow> string \<Rightarrow> node \<Rightarrow> bool" where
  "is_named d name c = (attrs d c ''id'' = Some name \<or> attrs d c ''name'' = Some name)"

definition named_candidates :: "'a dom_scheme \<Rightarrow> node \<Rightarrow> string \<Rightarrow> node list" where
  "named_candidates d form name =
     (let ds = descendants d (next_node d) form;
          listed = filter (\<lambda>c. localName d c \<in> set listed_tags \<and> is_named d name c) ds
      in if listed \<noteq> [] then listed
         else filter (\<lambda>c. localName d c = ''img'' \<and> is_named d name c) ds)"

definition form_get :: "engine \<Rightarrow> page \<Rightarrow> node \<Rightarrow> string \<Rightarrow> error + jsval" where
  "form_get eng st form name =
     (case named_candidates st form name of
        [] \<Rightarrow> native_get eng st form name
      | [c] \<Rightarrow> Inr (JNode c)
      | cs \<Rightarrow> Inr (JNodeList cs))"

subsection \<open>Calling functions and reading proxy members\<close>

definition lower_char :: "char \<Rightarrow> char" where
  "lower_char c = (let n = (of_char c :: nat) in if 65 \<le> n \<and> n \<le> 90 then char_of (n + 32) else c)"

definition toLowerCase :: "string \<Rightarrow> string" where
  "toLowerCase s = map lower_char s"

text \<open>
  The three attribute methods need an element as \<open>this\<close> and their arguments (a
  \<open>TypeError\<close> otherwise); on an HTML element they lower-case the attribute name.  The
  validation of attribute names by \<open>setAttribute\<close> is not modelled.  \<open>Forward m\<close> reads
  \<open>this.form_\<close> and applies \<open>m\<close> to it.
\<close>

definition this_form :: "page \<Rightarrow> jsval \<Rightarrow> error + jsval" where
  "this_form st this =
     (case this of
        JUndefined \<Rightarrow> Inl TypeError
      | JNull \<Rightarrow> Inl TypeError
      | JObj r \<Rightarrow>
          (case heap st r of
             None \<Rightarrow> Inr JUndefined
           | Some p \<Rightarrow> (case p_own p ''form_'' of Some (LData v) \<Rightarrow> Inr v | _ \<Rightarrow> Inr JUndefined))
      | _ \<Rightarrow> Inr JUndefined)"

fun apply_fn :: "engine \<Rightarrow> fn \<Rightarrow> jsval \<Rightarrow> jsval list \<Rightarrow> page \<Rightarrow> (error + jsval) \<times> page" where
  "apply_fn eng NGetAttribute this args st =
     (case (this, args) of
        (JNode n, a # _) \<Rightarrow> (Inr (attr_val (getAttribute st n (toLowerCase (to_string a)))), st)
      | _ \<Rightarrow> (Inl TypeError, st))"
| "apply_fn eng NSetAttribute this args st =
     (case (this, args) of
        (JNode n, a # v # _) \<Rightarrow>
          (Inr JUndefined, setAttribute st n (toLowerCase (to_string a)) (to_string v))
      | _ \<Rightarrow> (Inl TypeError, st))"
| "apply_fn eng NRemoveAttribute this args st =
     (case (this, args) of
        (JNode n, a # _) \<Rightarrow> (Inr JUndefined, removeAttribute st n (toLowerCase (to_string a)))
      | _ \<Rightarrow> (Inl TypeError, st))"
| "apply_fn eng (NOther k) this args st = apply_other eng k this args st"
| "apply_fn eng (Forward m) this args st =
     (case this_form st this of
        Inl e \<Rightarrow> (Inl e, st)
      | Inr f \<Rightarrow> apply_fn eng m f args st)"

definition call_value :: "engine \<Rightarrow> jsval \<Rightarrow> jsval \<Rightarrow> jsval list \<Rightarrow> page \<Rightarrow> (error + jsval) \<times> page" where
  "call_value eng v this args st =
     (case v of JFun f \<Rightarrow> apply_fn eng f this args st | _ \<Rightarrow> (Inl TypeError, st))"

text \<open>
  \<open>proxy[name]\<close> for a name that is not an attribute accessor of \<open>setupLegacyProxy\<close>.
  The attribute accessors call \<open>proxy.getAttribute\<close>, \<open>proxy.setAttribute\<close> and
  \<open>proxy.removeAttribute\<close> through this function; none of these names is a key of
  \<open>LEGACY_PROPS\<close>, so none is an attribute accessor (an attribute accessor named
  \<open>getAttribute\<close> would call itself without end: a \<open>RangeError\<close>).
\<close>

definition proxy_member :: "engine \<Rightarrow> page \<Rightarrow> nat \<Rightarrow> string \<Rightarrow> (error + jsval) \<times> page" where
  "proxy_member eng st r name =
     (case heap st r of
        None \<Rightarrow> (Inl TypeError, st)
      | Some p \<Rightarrow>
          (case p_own p name of
             Some (LData v) \<Rightarrow> (Inr v, st)
           | Some (LReadOnce actual) \<Rightarrow> (Inr actual, st)
           | Some (LDirect form) \<Rightarrow> (form_get eng st form name, st)
           | Some (LAttr a desc) \<Rightarrow> (Inl RangeError, st)
           | None \<Rightarrow>
               (case p_proto p name of
                  Some (BMethod m) \<Rightarrow> (Inr (JFun (Forward m)), st)
                | Some (BAccessor (Some g) s) \<Rightarrow>
                    (case this_form st (JObj r) of
                       Inl e \<Rightarrow> (Inl e, st)
                     | Inr f \<Rightarrow> apply_fn eng g f [] st)
                | Some (BAccessor None s) \<Rightarrow> (Inr JUndefined, st)
                | Some BConstructor \<Rightarrow> (Inr (object_member eng name), st)
                | None \<Rightarrow> (Inr (object_member eng name), st))))"

definition proxy_invoke ::
  "engine \<Rightarrow> page \<Rightarrow> nat \<Rightarrow> string \<Rightarrow> jsval list \<Rightarrow> (error + jsval) \<times> page" where
  \<comment> \<open>the method call \<^verbatim>\<open>proxy[name](args)\<close>, with \<open>this\<close> the proxy\<close>
  "proxy_invoke eng st r name args =
     (case proxy_member eng st r name of
        (Inl e, st') \<Rightarrow> (Inl e, st')
      | (Inr f, st') \<Rightarrow> call_value eng f (JObj r) args st')"

subsection \<open>setupLegacyProxy\<close>

definition LEGACY_PROPS_table :: "(string \<times> legacy_desc) list" where
  \<comment> \<open>the entries of the object literal \<open>LEGACY_PROPS\<close>, in the order of the source\<close>
  "LEGACY_PROPS_table =
     [(''acceptCharset'', \<lparr>access = ATTR, attr = Some ''accept-charset'', ltype = None, def = None\<rparr>),
      (''accessKey'', \<lparr>access = ATTR, attr = Some ''accesskey'', ltype = None, def = None\<rparr>),
      (''action'', \<lparr>access = ATTR, attr = None, ltype = Some URL, def = None\<rparr>),
      (''attributes'', \<lparr>access = READ_ONCE, attr = None, ltype = None, def = None\<rparr>),
      (''autocomplete'', \<lparr>access = ATTR, attr = None, ltype = None, def = Some (JStr ''on'')\<rparr>),
      (''children'', \<lparr>access = READ_ONCE, attr = None, ltype = None, def = None\<rparr>),
      (''dataset'', \<lparr>access = READ_ONCE, attr = None, ltype = None, def = None\<rparr>),
      (''dir'', \<lparr>access = ATTR, attr = None, ltype = None, def = None\<rparr>),
      (''draggable'', \<lparr>access = ATTR, attr = None, ltype = Some BOOL, def = Some (JBool False)\<rparr>),
      (''elements'', \<lparr>access = READ_ONCE, attr = None, ltype = None, def = None\<rparr>),
      (''encoding'', \<lparr>access = READ_ONCE, attr = None, ltype = None, def = None\<rparr>),
      (''enctype'', \<lparr>access = ATTR, attr = None, ltype = None, def = None\<rparr>),
      (''hidden'', \<lparr>access = ATTR, attr = None, ltype = Some TOGGLE, def = Some (JBool False)\<rparr>),
      (''id'', \<lparr>access = ATTR, attr = None, ltype = None, def = Some (JStr [])\<rparr>),
      (''lang'', \<lparr>access = ATTR, attr = None, ltype = None, def = None\<rparr>),
      (''localName'', \<lparr>access = READ_ONCE, attr = None, ltype = None, def = None\<rparr>),
      (''method'', \<lparr>access = ATTR, attr = None, ltype = None, def = Some (JStr ''get'')\<rparr>),
      (''name'', \<lparr>access = ATTR, attr = None, ltype = None, def = None\<rparr>),
      (''noValidate'', \<lparr>access = ATTR, attr = Some ''novalidate'', ltype = Some TOGGLE,
                        def = Some (JBool False)\<rparr>),
      (''prefix'', \<lparr>access = READ_ONCE, attr = None, ltype = None, def = None\<rparr>),
      (''spellcheck'', \<lparr>access = ATTR, attr = None, ltype = None, def = None\<rparr>),
      (''style'', \<lparr>access = READ_ONCE, attr = None, ltype = None, def = None\<rparr>),
      (''target'', \<lparr>access = ATTR, attr = None, ltype = None, def = Some (JStr [])\<rparr>),
      (''title'', \<lparr>access = ATTR, attr = None, ltype = None, def = None\<rparr>),
      (''translate'', \<lparr>access = ATTR, attr = None, ltype = None, def = None\<rparr>)]"

definition LEGACY_PROPS :: "string \<rightharpoonup> legacy_desc" where
  "LEGACY_PROPS = map_of LEGACY_PROPS_table"

definition attr_of :: "legacy_desc \<Rightarrow> string \<Rightarrow> string" where
  \<comment> \<open>\<^verbatim>\<open>desc.attr || name\<close>\<close>
  "attr_of desc name = (case attr desc of None \<Rightarrow> name | Some a \<Rightarrow> if a = [] then name else a)"

text \<open>
  The block of the \<open>READ_ONCE\<close> branch that computes \<open>actual\<close>.  When \<open>current\<close> is a
  node, \<open>dev().assertElement\<close> (of \<^verbatim>\<open>src/log\<close>, not among the sources) returns it, the
  nodes of the model being elements.  The \<open>finally\<close> clause runs \<open>insertBefore\<close> whether
  the read threw or not; an exception of \<open>insertBefore\<close> itself replaces the result.
\<close>

definition read_once :: "engine \<Rightarrow> node \<Rightarrow> string \<Rightarrow> jsval \<Rightarrow> page \<Rightarrow> (error + jsval) \<times> page" where
  "read_once eng form name current st =
     (case current of
        JNode element \<Rightarrow>
          (let nxt = nextSibling st element
           in case parentNode st element of
                None \<Rightarrow> (Inl TypeError, st)
              | Some parent \<Rightarrow>
                  (case removeChild st parent element of
                     Inl e \<Rightarrow> (Inl e, st)
                   | Inr st1 \<Rightarrow>
                       (let res = form_get eng st1 form name
                        in case insertBefore st1 parent element nxt of
                             Inl e \<Rightarrow> (Inl e, st1)
                           | Inr st2 \<Rightarrow> (res, st2))))
      | _ \<Rightarrow> (Inr current, st))"

definition define_own :: "page \<Rightarrow> nat \<Rightarrow> string \<Rightarrow> own_prop \<Rightarrow> page" where
  \<comment> \<open>\<^verbatim>\<open>Object.defineProperty(proxy, name, ..)\<close> for a name the proxy does not have\<close>
  "define_own st r name b =
     (case heap st r of
        None \<Rightarrow> st
      | Some p \<Rightarrow> st\<lparr>heap := (heap st)(r \<mapsto> p\<lparr>p_own := (p_own p)(name \<mapsto> b)\<rparr>)\<rparr>)"

text \<open>
  One turn of the loop.  The names that reach \<open>LEGACY_PROPS[name]\<close> are not in the
  proxy, hence not members of \<open>Object.prototype\<close>, so the lookup is the lookup in the
  table.  \<open>access\<close> has the two values of \<open>LegacyPropAccessType\<close>; the last branch of
  the source (\<open>dev().assert(false, ..)\<close>) is for no entry of the table.
\<close>

definition legacy_step :: "engine \<Rightarrow> node \<Rightarrow> nat \<Rightarrow> string \<Rightarrow> page \<Rightarrow> error option \<times> page" where
  "legacy_step eng form r name st =
     (case heap st r of
        None \<Rightarrow> (Some TypeError, st)
      | Some p \<Rightarrow>
          if in_proxy p name \<or> skipped name then (None, st)
          else
            (case form_get eng st form name of
               Inl e \<Rightarrow> (Some e, st)
             | Inr current \<Rightarrow>
                 (case LEGACY_PROPS name of
                    Some desc \<Rightarrow>
                      (case access desc of
                         READ_ONCE \<Rightarrow>
                           (case read_once eng form name current st of
                              (Inl e, st') \<Rightarrow> (Some e, st')
                            | (Inr actual, st') \<Rightarrow> (None, define_own st' r name (LReadOnce actual)))
                       | ATTR \<Rightarrow> (None, define_own st r name (LAttr (attr_of desc name) desc)))
                  | None \<Rightarrow> (None, define_own st r name (LDirect form)))))"

fun legacy_loop :: "engine \<Rightarrow> node \<Rightarrow> nat \<Rightarrow> string list \<Rightarrow> page \<Rightarrow> error option \<times> page" where
  "legacy_loop eng form r [] st = (None, st)"
| "legacy_loop eng form r (name # names) st =
     (case legacy_step eng form r name st of
        (Some e, st') \<Rightarrow> (Some e, st')
      | (None, st') \<Rightarrow> legacy_loop eng form r names st')"

definition setupLegacyProxy :: "engine \<Rightarrow> node \<Rightarrow> nat \<Rightarrow> page \<Rightarrow> error option \<times> page" where
  "setupLegacyProxy eng form r st =
     (let st0 = st\<lparr>legacy_calls := legacy_calls st @ [form]\<rparr>
      in case win_HTMLFormElement (windows st0 (defaultView st0 form)) of
           None \<Rightarrow> (Some TypeError, st0)
         | Some k \<Rightarrow> legacy_loop eng form r (clone_forin eng st0 form) st0)"

subsection \<open>The accessors of the legacy proxy, and reading and writing a proxy property\<close>

definition legacy_attr_get ::
  "engine \<Rightarrow> page \<Rightarrow> nat \<Rightarrow> string \<Rightarrow> legacy_desc \<Rightarrow> (error + jsval) \<times> page" where
  "legacy_attr_get eng st r a desc =
     (case proxy_invoke eng st r ''getAttribute'' [JStr a] of
        (Inl e, st') \<Rightarrow> (Inl e, st')
      | (Inr v, st') \<Rightarrow>
          (Inr (if eq_null v \<and> def desc \<noteq> None then the (def desc)
                else if ltype desc = Some BOOL then JBool (v = JStr ''true'')
                else if ltype desc = Some TOGGLE then JBool (\<not> eq_null v)
                else if ltype desc = Some URL
                  then JStr (parseUrl_href eng (to_string (if truthy v then v else JStr [])))
                else v), st'))"

definition legacy_attr_set ::
  "engine \<Rightarrow> page \<Rightarrow> nat \<Rightarrow> string \<Rightarrow> legacy_desc \<Rightarrow> jsval \<Rightarrow> (error + jsval) \<times> page" where
  "legacy_attr_set eng st r a desc v =
     (let v1 = (if ltype desc = Some TOGGLE then (if truthy v then JStr [] else JNull) else v)
      in case (if \<not> eq_null v1 then proxy_invoke eng st r ''setAttribute'' [JStr a, v1]
               else proxy_invoke eng st r ''removeAttribute'' [JStr a]) of
           (Inl e, st') \<Rightarrow> (Inl e, st')
         | (Inr u, st') \<Rightarrow> (Inr JUndefined, st'))"

definition proxy_get :: "engine \<Rightarrow> page \<Rightarrow> nat \<Rightarrow> string \<Rightarrow> (error + jsval) \<times> page" where
  \<comment> \<open>reading \<^verbatim>\<open>proxy[name]\<close>\<close>
  "proxy_get eng st r name =
     (case heap st r of
        None \<Rightarrow> (Inl TypeError, st)
      | Some p \<Rightarrow>
          (case p_own p name of
             Some (LAttr a desc) \<Rightarrow> legacy_attr_get eng st r a desc
           | _ \<Rightarrow> proxy_member eng st r name))"

text \<open>
  Writing \<^verbatim>\<open>proxy[name] = v\<close>, in strict mode as the modules of the framework are: an
  accessor without a setter, and the read-only data property that \<open>defineProperty\<close>
  makes from an empty descriptor, refuse the write with a \<open>TypeError\<close>; a name that is a
  method of the prototype, or unknown, becomes an own data property of the proxy.
\<close>

definition proxy_set :: "engine \<Rightarrow> page \<Rightarrow> nat \<Rightarrow> string \<Rightarrow> jsval \<Rightarrow> (error + jsval) \<times> page" where
  "proxy_set eng st r name v =
     (case heap st r of
        None \<Rightarrow> (Inl TypeError, st)
      | Some p \<Rightarrow>
          (case p_own p name of
             Some (LData u) \<Rightarrow> (Inr v, define_own st r name (LData v))
           | Some (LReadOnce actual) \<Rightarrow> (Inl TypeError, st)
           | Some (LDirect form) \<Rightarrow>
               (case native_set eng st form name v of
                  (Inl e, st') \<Rightarrow> (Inl e, st')
                | (Inr u, st') \<Rightarrow> (Inr v, st'))
           | Some (LAttr a desc) \<Rightarrow>
               (case legacy_attr_set eng st r a desc v of
                  (Inl e, st') \<Rightarrow> (Inl e, st')
                | (Inr u, st') \<Rightarrow> (Inr v, st'))
           | None \<Rightarrow>
               (case p_proto p name of
                  Some (BAccessor g (Some s)) \<Rightarrow>
                    (case this_form st (JObj r) of
                       Inl e \<Rightarrow> (Inl e, st)
                     | Inr f \<Rightarrow>
                         (case apply_fn eng s f [v] st of
                            (Inl e, st') \<Rightarrow> (Inl e, st')
                          | (Inr u, st') \<Rightarrow> (Inr v, st')))
                | Some (BAccessor g None) \<Rightarrow> (Inl TypeError, st)
                | _ \<Rightarrow> (Inr v, define_own st r name (LData v)))))"

subsection \<open>installFormProxy\<close>

definition installFormProxy :: "engine \<Rightarrow> node \<Rightarrow> page \<Rightarrow> (error + nat) \<times> page" where
  "installFormProxy eng form st =
     (let (constr, st1) = getFormProxyConstr st (defaultView st form);
          r = next_obj st1;
          st2 = st1\<lparr>heap := (heap st1)(r \<mapsto> new_FormProxy constr form), next_obj := Suc r\<rparr>
      in if \<not> in_proxy (new_FormProxy constr form) ''action''
         then (case setupLegacyProxy eng form r st2 of
                 (Some e, st3) \<Rightarrow> (Inl e, st3)
               | (None, st3) \<Rightarrow> (Inr r, set_prop st3 form ''$p'' (JObj r)))
         else (Inr r, set_prop st2 form ''$p'' (JObj r)))"

section \<open>The image comparison widget\<close>

record touch =
  pageX :: int

text \<open>
  A mouse event has no \<open>touches\<close> property (reading it gives \<open>undefined\<close>); a touch
  event has a list of touches, which may be empty.
\<close>

datatype event = MouseEvent string int | TouchEvent string "touch list"

fun etype :: "event \<Rightarrow> string" where
  "etype (MouseEvent t x) = t"
| "etype (TouchEvent t ts) = t"

fun touches :: "event \<Rightarrow> touch list option" where
  "touches (MouseEvent t x) = None"
| "touches (TouchEvent t ts) = Some ts"

text \<open>
  The private fields of the class carry a trailing underscore in the source
  (\<^verbatim>\<open>image1Container_\<close>, \<^verbatim>\<open>slider_\<close>, ...); the record fields drop it.
\<close>

record widget =
  element :: node
  image1Container :: node
  image2Container :: node
  image1 :: node
  image2 :: node
  slider :: node
  myText :: string
  startX :: jsval
  startWidth :: jsval

definition constructor :: "node \<Rightarrow> dom \<Rightarrow> widget \<times> dom" where
  "constructor el d =
     (let (c1, d1) = createElement ''div'' d;
          (c2, d2) = createElement ''div'' d1;
          (i1, d3) = createElement ''img'' d2;
          (i2, d4) = createElement ''img'' d3;
          (s, d5) = createElement ''div'' d4
      in (\<lparr>element = el, image1Container = c1, image2Container = c2,
            image1 = i1, image2 = i2, slider = s,
            myText = ''AMP Photo-Split-Compare'',
            startX = JUndefined, startWidth = JUndefined\<rparr>, d5))"

definition buildPhotoCompareSlider :: "widget \<Rightarrow> dom \<Rightarrow> dom" where
  "buildPhotoCompareSlider w d =
     (let el = element w;
          d1 = set_style d el ''height'' (plus_px (attr_val (getAttribute d el ''height'')));
          d2 = set_style d1 el ''width'' (plus_px (attr_val (getAttribute d1 el ''width'')));
          d3 = appendChild d2 (image1Container w) (image1 w);
          d4 = appendChild d3 (image2Container w) (image2 w);
          d5 = set_className d4 (image1Container w) ''image1Container'';
          d6 = set_className d5 (image2Container w) ''image2Container'';
          d7 = set_style d6 (image1Container w) ''width'' ''49%'';
          d8 = set_prop d7 (image1 w) ''src'' (attr_val (getAttribute d7 el ''image-1-src''));
          d9 = set_prop d8 (image2 w) ''src'' (attr_val (getAttribute d8 el ''image-2-src''));
          h = attr_val (getAttribute d9 el ''height'');
          d10 = set_prop d9 (image2 w) ''height'' h;
          d11 = set_prop d10 (image1 w) ''height'' h;
          wd = attr_val (getAttribute d11 el ''width'');
          d12 = set_prop d11 (image2 w) ''width'' wd;
          d13 = set_prop d12 (image1 w) ''width'' wd;
          d14 = set_className d13 (image1 w) ''image1'';
          d15 = set_className d14 (image2 w) ''image2'';
          d16 = set_className d15 (slider w) ''slider'';
          d17 = appendChild d16 el (image1Container w);
          d18 = appendChild d17 el (image2Container w)
      in appendChild d18 el (slider w))"

text \<open>
  Every \<^verbatim>\<open>bind(this)\<close> makes a new function, so \<open>addEventListener\<close> never meets a
  listener that is already registered: each call appends one entry.
\<close>

definition addEventListener :: "dom \<Rightarrow> node \<Rightarrow> string \<Rightarrow> handler \<Rightarrow> dom" where
  "addEventListener d n ty h = d\<lparr>listeners := listeners d @ [(n, ty, h)]\<rparr>"

definition createListeners :: "widget \<Rightarrow> dom \<Rightarrow> dom" where
  "createListeners w d =
     (let d1 = addEventListener d (slider w) ''mousedown'' SliderBeginsMoving;
          d2 = addEventListener d1 (slider w) ''touchstart'' SliderBeginsMoving;
          d3 = addEventListener d2 (slider w) ''touchmove'' WhileSliderMoving
      in addEventListener d3 (slider w) ''touchend'' WhenSliderStops)"


text \<open>
  \<open>e.touches[0].pageX\<close>: a \<open>TypeError\<close> when \<open>e.touches\<close> is undefined, and when the
  list is empty (\<open>touches[0]\<close> is then undefined).
\<close>

definition first_pageX :: "event \<Rightarrow> error + int" where
  "first_pageX e =
     (case touches e of
        None \<Rightarrow> Inl TypeError
      | Some [] \<Rightarrow> Inl TypeError
      | Some (t # ts) \<Rightarrow> Inr (pageX t))"

definition sliderBeginsMoving :: "widget \<Rightarrow> event \<Rightarrow> dom \<Rightarrow> error + widget" where
  "sliderBeginsMoving w e d =
     (case first_pageX e of
        Inl err \<Rightarrow> Inl err
      | Inr x \<Rightarrow> Inr (w\<lparr>startX := JNum x,
                         startWidth := parseInt10 (computedWidth d (element w))\<rparr>))"

text \<open>
  \<open>x < getAttribute('width')\<close> compares a number with a string or \<open>null\<close>: \<open>null\<close>
  converts to 0 and a string through the engine's \<open>ToNumber\<close>, here the parameter
  \<open>toNumber\<close> (\<open>None\<close> is \<open>NaN\<close>, and every comparison with \<open>NaN\<close> is false).
\<close>

definition less_attr :: "(string \<Rightarrow> int option) \<Rightarrow> int \<Rightarrow> string option \<Rightarrow> bool" where
  "less_attr toNumber x a =
     (case a of
        None \<Rightarrow> x < 0
      | Some s \<Rightarrow> (case toNumber s of None \<Rightarrow> False | Some n \<Rightarrow> x < n))"

definition whileSliderMoving ::
  "(string \<Rightarrow> int option) \<Rightarrow> widget \<Rightarrow> event \<Rightarrow> dom \<Rightarrow> error + dom" where
  "whileSliderMoving toNumber w e d =
     (case first_pageX e of
        Inl err \<Rightarrow> Inl err
      | Inr px \<Rightarrow>
          (let c1 = image1Container w;
               a = getAttribute d (element w) ''width'';
               v = (if less_attr toNumber (px - offsetLeft d c1) a
                    then plus_px (JNum (px - offsetLeft d c1))
                    else plus_px (attr_val a));
               d1 = set_style d c1 ''width'' v
           in Inr (set_style d1 (slider w) ''left'' (get_style d1 c1 ''width''))))"

definition whenSliderStops :: "widget \<Rightarrow> event \<Rightarrow> dom \<Rightarrow> widget \<times> dom" where
  "whenSliderStops w e d = (w, d)"

text \<open>Dispatch: the handlers registered on a node for an event type, and running one.\<close>

definition handlers_for :: "dom \<Rightarrow> node \<Rightarrow> string \<Rightarrow> handler list" where
  "handlers_for d n ty = map (\<lambda>(m, t, h). h) (filter (\<lambda>(m, t, h). m = n \<and> t = ty) (listeners d))"

fun run_handler ::
  "(string \<Rightarrow> int option) \<Rightarrow> handler \<Rightarrow> widget \<Rightarrow> event \<Rightarrow> dom \<Rightarrow> error + widget \<times> dom" where
  "run_handler tn SliderBeginsMoving w e d =
     (case sliderBeginsMoving w e d of Inl err \<Rightarrow> Inl err | Inr w' \<Rightarrow> Inr (w', d))"
| "run_handler tn WhileSliderMoving w e d =
     (case whileSliderMoving tn w e d of Inl err \<Rightarrow> Inl err | Inr d' \<Rightarrow> Inr (w, d'))"
| "run_handler tn WhenSliderStops w e d = Inr (whenSliderStops w e d)"


definition dom0 :: dom where
  "dom0 = \<lparr>next_node = 1, localName = (\<lambda>n. ''amp-photo-split-compare''), kids = (\<lambda>n. []),
           parentNode = (\<lambda>n. None),
           attrs = (\<lambda>n. [''width'' \<mapsto> ''300'', ''height'' \<mapsto> ''200'',
                         ''image-1-src'' \<mapsto> ''a.png'', ''image-2-src'' \<mapsto> ''b.png'']),
           className = (\<lambda>n. []), style = (\<lambda>n. Map.empty), props = (\<lambda>n. Map.empty),
           offsetLeft = (\<lambda>n. 10), computedWidth = (\<lambda>n. ''300px''), listeners = []\<rparr>"

section \<open>Auxiliary notions\<close>


section \<open>Example data\<close>

definition dom_bare :: dom where
  \<comment> \<open>the example document with no attribute at all\<close>
  "dom_bare = dom0\<lparr>attrs := (\<lambda>n. Map.empty)\<rparr>"

definition w0 :: widget where
  "w0 = fst (constructor 0 dom0)"

subsection \<open>Example windows, engine and page\<close>

definition accessor_desc :: "fn \<Rightarrow> fn \<Rightarrow> descriptor" where
  "accessor_desc g s = \<lparr>dvalue = JUndefined, dget = Some g, dset = Some s\<rparr>"

definition method_desc :: "fn \<Rightarrow> descriptor" where
  "method_desc m = \<lparr>dvalue = JFun m, dget = None, dset = None\<rparr>"

definition Element_klass :: klass where
  "Element_klass =
     \<lparr>forin = [''getAttribute'', ''setAttribute'', ''removeAttribute'', ''ELEMENT_NODE'', ''onclick''],
      own = [''getAttribute'' \<mapsto> method_desc NGetAttribute, ''setAttribute'' \<mapsto> method_desc NSetAttribute,
             ''removeAttribute'' \<mapsto> method_desc NRemoveAttribute,
             ''ELEMENT_NODE'' \<mapsto> \<lparr>dvalue = JNum 1, dget = None, dset = None\<rparr>,
             ''onclick'' \<mapsto> accessor_desc (NOther 8) (NOther 9)]\<rparr>"

definition win_modern :: window where
  \<comment> \<open>an engine with the attributes on the prototype chain\<close>
  "win_modern =
     \<lparr>FormProxy = None,
      win_HTMLFormElement =
        Some \<lparr>forin = [''action'', ''submit'', ''getAttribute''],
              own = [''action'' \<mapsto> accessor_desc (NOther 1) (NOther 2), ''submit'' \<mapsto> method_desc (NOther 3)]\<rparr>,
      win_HTMLElement =
        Some \<lparr>forin = [''hidden'', ''getAttribute''],
              own = [''hidden'' \<mapsto> accessor_desc (NOther 4) (NOther 5)]\<rparr>,
      win_Element = Some Element_klass,
      win_Node = None,
      win_EventTarget = None\<rparr>"

definition win_legacy :: window where
  \<comment> \<open>an engine with the methods on the prototypes and the attributes on the instances\<close>
  "win_legacy =
     \<lparr>FormProxy = None,
      win_HTMLFormElement =
        Some \<lparr>forin = [''submit'', ''getAttribute''], own = [''submit'' \<mapsto> method_desc (NOther 3)]\<rparr>,
      win_HTMLElement = Some \<lparr>forin = [''getAttribute''], own = Map.empty\<rparr>,
      win_Element = Some Element_klass,
      win_Node = None,
      win_EventTarget = None\<rparr>"

definition eng0 :: engine where
  "eng0 =
     \<lparr>native_get = (\<lambda>st n name. if name = ''encoding'' then Inl (Thrown 0) else Inr (JStr ''native'')),
      native_set = (\<lambda>st n name v. (Inr v, st)),
      clone_forin = (\<lambda>st n. [''hidden'', ''noValidate'', ''style'', ''submit'', ''custom'', ''onclick'']),
      object_member = (\<lambda>name. JUndefined),
      apply_other = (\<lambda>k this args st. (Inr (JNum (int k)), st)),
      parseUrl_href = (\<lambda>s. s)\<rparr>"

definition page0 :: page where
  \<comment> \<open>forms 0 and 3 in window 0 and form 4 in window 2 (both modern), form 5 in window 1
      (legacy); form 0 has the children 1 and 2, inputs named \<open>style\<close> and \<open>encoding\<close>\<close>
  "page0 =
     \<lparr>next_node = 6,
      localName = (\<lambda>n. if n \<in> {0, 3, 4, 5} then ''form'' else if n = 1 \<or> n = 2 then ''input'' else ''div''),
      kids = (\<lambda>n. if n = 0 then [1, 2] else []),
      parentNode = (\<lambda>n. if n = 1 \<or> n = 2 then Some 0 else None),
      attrs = (\<lambda>n. if n = 1 then [''name'' \<mapsto> ''style'']
                    else if n = 2 then [''name'' \<mapsto> ''encoding''] else Map.empty),
      className = (\<lambda>n. []), style = (\<lambda>n. Map.empty), props = (\<lambda>n. Map.empty),
      offsetLeft = (\<lambda>n. 0), computedWidth = (\<lambda>n. []), listeners = [],
      blacklistedProperties = None,
      windows = (\<lambda>w. if w = 1 then win_legacy else win_modern),
      defaultView = (\<lambda>n. if n = 5 then 1 else if n = 4 then 2 else 0),
      heap = Map.empty, next_obj = 0, legacy_calls = []\<rparr>"

definition page_legacy :: page where
  \<comment> \<open>the same document, every form in a legacy window\<close>
  "page_legacy = page0\<lparr>windows := (\<lambda>w. win_legacy)\<rparr>"


definition page_proxy :: page where
  \<comment> \<open>the example page with a proxy of form 0 that has no binding yet\<close>
  "page_proxy = page0\<lparr>heap := [0 \<mapsto> new_FormProxy FormProxyProto0 0], next_obj := 1\<rparr>"



section \<open>The widget: what each operation changes\<close>

lemma set_style_frame:
  "kids (set_style d n p v) = kids d" "parentNode (set_style d n p v) = parentNode d"
  "attrs (set_style d n p v) = attrs d" "className (set_style d n p v) = className d"
  "props (set_style d n p v) = props d" "listeners (set_style d n p v) = listeners d"
  "style (set_style d n p v) m q = (if m = n \<and> q = p then Some v else style d m q)"
  by (simp_all add: set_style_def)

lemma set_prop_frame:
  "kids (set_prop d n p v) = kids d" "parentNode (set_prop d n p v) = parentNode d"
  "attrs (set_prop d n p v) = attrs d" "className (set_prop d n p v) = className d"
  "style (set_prop d n p v) = style d" "listeners (set_prop d n p v) = listeners d"
  "props (set_prop d n p v) m q = (if m = n \<and> q = p then Some v else props d m q)"
  by (simp_all add: set_prop_def)

lemma set_className_frame:
  "kids (set_className d n c) = kids d" "parentNode (set_className d n c) = parentNode d"
  "attrs (set_className d n c) = attrs d" "props (set_className d n c) = props d"
  "style (set_className d n c) = style d" "listeners (set_className d n c) = listeners d"
  "className (set_className d n c) m = (if m = n then c else className d m)"
  by (simp_all add: set_className_def)

lemma appendChild_frame:
  "attrs (appendChild d p c) = attrs d" "props (appendChild d p c) = props d"
  "style (appendChild d p c) = style d" "listeners (appendChild d p c) = listeners d"
  "className (appendChild d p c) = className d"
  "parentNode (appendChild d p c) m = (if m = c then Some p else parentNode d m)"
  by (simp_all add: appendChild_def detach_def Let_def split: option.splits)

lemma appendChild_kids:
  "parentNode d c = None \<Longrightarrow>
     kids (appendChild d p c) m = (if m = p then kids d p @ [c] else kids d m)"
  by (simp add: appendChild_def detach_def Let_def)

lemmas frame_simps = set_style_frame set_prop_frame set_className_frame appendChild_frame
  appendChild_kids getAttribute_def



lemma build_style:
  "style (buildPhotoCompareSlider w d) m q =
     (if m = image1Container w \<and> q = ''width'' then Some ''49%''
      else if m = element w \<and> q = ''width''
        then Some (plus_px (attr_val (attrs d (element w) ''width'')))
      else if m = element w \<and> q = ''height''
        then Some (plus_px (attr_val (attrs d (element w) ''height'')))
      else style d m q)"
  by (simp add: buildPhotoCompareSlider_def Let_def frame_simps)


lemma constructor_shape:
  assumes "constructor el d = (w, d1)"
  shows "element w = el" "image1Container w = next_node d" "image2Container w = Suc (next_node d)"
    "image1 w = Suc (Suc (next_node d))" "image2 w = next_node d + 3" "slider w = next_node d + 4"
  using assms by (auto simp: constructor_def createElement_def Let_def split: prod.splits)

lemma constructor_dom:
  assumes "constructor el d = (w, d1)"
  shows "el < next_node d \<Longrightarrow> kids d1 el = kids d el"
    "el < next_node d \<Longrightarrow> attrs d1 el = attrs d el"
    "el < next_node d \<Longrightarrow> style d1 el = style d el"
    "listeners d1 = listeners d"
    "kids d1 (next_node d) = []" "kids d1 (Suc (next_node d)) = []"
    "parentNode d1 (next_node d) = None" "parentNode d1 (Suc (next_node d)) = None"
    "parentNode d1 (Suc (Suc (next_node d))) = None" "parentNode d1 (next_node d + 3) = None"
    "parentNode d1 (next_node d + 4) = None"
  using assms by (auto simp: constructor_def createElement_def Let_def split: prod.splits)

section \<open>The widget: the claims\<close>





text \<open>
  C5.  \<open>buildPhotoCompareSlider\<close> has no error result: no step of it can fail.  On a
  widget built by the constructor on an element that has no \<open>height\<close> attribute, the
  height assigned to the style of the element is the text \<open>nullpx\<close>, the \<open>null\<close> of the
  missing attribute followed by \<open>px\<close>; the same holds of \<open>width\<close>.
\<close>

theorem missing_size_attribute_null_style:
  assumes "el < next_node d" and "constructor el d = (w, d1)"
  shows "(attrs d el ''height'' = None \<longrightarrow>
            style (buildPhotoCompareSlider w d1) el ''height'' = Some ''nullpx'')
       \<and> (attrs d el ''width'' = None \<longrightarrow>
            style (buildPhotoCompareSlider w d1) el ''width'' = Some ''nullpx'')"
  using assms(1) constructor_dom(2)[OF assms(2)]
  by (simp add: build_style constructor_shape[OF assms(2)] plus_px_def attr_val_def)

theorem missing_size_attribute_null_style_witness:
  "style (buildPhotoCompareSlider (fst (constructor 0 dom_bare)) (snd (constructor 0 dom_bare)))
       0 ''height'' = Some ''nullpx''
   \<and> style (buildPhotoCompareSlider (fst (constructor 0 dom_bare)) (snd (constructor 0 dom_bare)))
       0 ''width'' = Some ''nullpx''"
  using missing_size_attribute_null_style
    [of 0 dom_bare "fst (constructor 0 dom_bare)" "snd (constructor 0 dom_bare)"]
  by (simp add: dom_bare_def dom0_def)

text \<open>
  C6.  \<open>createListeners\<close> registers four listeners, all on the slider: \<open>mousedown\<close> and
  \<open>touchstart\<close> run \<open>sliderBeginsMoving\<close>, \<open>touchmove\<close> runs \<open>whileSliderMoving\<close>,
  \<open>touchend\<close> runs \<open>whenSliderStops\<close>.  The handlers of every other node are what they
  were, and no other field of the document changes: nothing else is installed.
\<close>

theorem createListeners_wiring:
  "listeners (createListeners w d) =
     listeners d @ [(slider w, ''mousedown'', SliderBeginsMoving),
                    (slider w, ''touchstart'', SliderBeginsMoving),
                    (slider w, ''touchmove'', WhileSliderMoving),
                    (slider w, ''touchend'', WhenSliderStops)]
   \<and> (n \<noteq> slider w \<longrightarrow> handlers_for (createListeners w d) n ty = handlers_for d n ty)
   \<and> createListeners w d = d\<lparr>listeners := listeners (createListeners w d)\<rparr>"
  by (simp add: createListeners_def addEventListener_def Let_def handlers_for_def)

theorem createListeners_wiring_witness:
  "listeners (createListeners w0 dom0) =
     [(5, ''mousedown'', SliderBeginsMoving), (5, ''touchstart'', SliderBeginsMoving),
      (5, ''touchmove'', WhileSliderMoving), (5, ''touchend'', WhenSliderStops)]
   \<and> handlers_for (createListeners w0 dom0) 0 ''touchmove'' = []"
proof -
  have sh: "slider w0 = 5"
    using constructor_shape [of 0 dom0 w0 "snd (constructor 0 dom0)"]
    by (simp add: w0_def dom0_def)
  have l: "listeners dom0 = []" "handlers_for dom0 0 ''touchmove'' = []"
    by (simp_all add: dom0_def handlers_for_def)
  show ?thesis
    using createListeners_wiring [of w0 dom0 0 "''touchmove''"] by (simp add: sh l)
qed

text \<open>
  C9.  \<open>sliderBeginsMoving\<close> returns exactly when the event has a touches list with a
  first element.  With no touches list, or an empty one, it fails with a \<open>TypeError\<close>;
  so it does on every mouse event, and \<open>createListeners\<close> registers it for
  \<open>mousedown\<close> on the slider.
\<close>

theorem sliderBeginsMoving_needs_touch:
  "((\<exists>w'. sliderBeginsMoving w e d = Inr w') \<longleftrightarrow> (\<exists>t ts. touches e = Some (t # ts)))
   \<and> (touches e = None \<or> touches e = Some [] \<longrightarrow> sliderBeginsMoving w e d = Inl TypeError)
   \<and> sliderBeginsMoving w (MouseEvent ty x) d = Inl TypeError
   \<and> SliderBeginsMoving \<in> set (handlers_for (createListeners w d) (slider w) ''mousedown'')
   \<and> run_handler tn SliderBeginsMoving w (MouseEvent ''mousedown'' x) d = Inl TypeError"
  by (auto simp: sliderBeginsMoving_def first_pageX_def handlers_for_def createListeners_def
      addEventListener_def Let_def split: option.splits list.splits)

theorem sliderBeginsMoving_needs_touch_witness:
  "sliderBeginsMoving w0 (TouchEvent ''touchstart'' []) dom0 = Inl TypeError
   \<and> (\<exists>w'. sliderBeginsMoving w0 (TouchEvent ''touchstart'' [\<lparr>pageX = 7\<rparr>]) dom0 = Inr w')"
  using sliderBeginsMoving_needs_touch [of w0 "TouchEvent ''touchstart'' []" dom0]
    sliderBeginsMoving_needs_touch [of w0 "TouchEvent ''touchstart'' [\<lparr>pageX = 7\<rparr>]" dom0]
  by simp

section \<open>The form proxy: the walk\<close>
















section \<open>The form proxy: what the legacy setup leaves unchanged\<close>






lemma define_own_page:
  "legacy_calls (define_own st r name b) = legacy_calls st"
  "windows (define_own st r name b) = windows st" "props (define_own st r name b) = props st"
  "attrs (define_own st r name b) = attrs st" "next_obj (define_own st r name b) = next_obj st"
  "blacklistedProperties (define_own st r name b) = blacklistedProperties st"
  "defaultView (define_own st r name b) = defaultView st"
  "kids (define_own st r name b) = kids st" "parentNode (define_own st r name b) = parentNode st"
  by (simp_all add: define_own_def split: option.splits)










lemma toggle_entries:
  "filter (\<lambda>(n, d). ltype d = Some TOGGLE) LEGACY_PROPS_table =
     [(''hidden'', \<lparr>access = ATTR, attr = None, ltype = Some TOGGLE, def = Some (JBool False)\<rparr>),
      (''noValidate'', \<lparr>access = ATTR, attr = Some ''novalidate'', ltype = Some TOGGLE,
                        def = Some (JBool False)\<rparr>)]"
  by code_simp

lemma toggle_cases:
  assumes "LEGACY_PROPS name = Some desc" "ltype desc = Some TOGGLE"
  shows "(name = ''hidden'' \<and> attr_of desc name = ''hidden'' \<or>
          name = ''noValidate'' \<and> attr_of desc name = ''novalidate'')
         \<and> def desc = Some (JBool False)"
proof -
  from assms(1) have "(name, desc) \<in> set LEGACY_PROPS_table"
    by (simp add: LEGACY_PROPS_def map_of_SomeD)
  with assms(2) have "(name, desc) \<in> set (filter (\<lambda>(n, d). ltype d = Some TOGGLE) LEGACY_PROPS_table)"
    by simp
  then show ?thesis
    unfolding toggle_entries by (auto simp: attr_of_def)
qed

lemma lower_attr: "toLowerCase ''hidden'' = ''hidden''" "toLowerCase ''novalidate'' = ''novalidate''"
  by code_simp+

lemma legacy_names_ok: "list_all (\<lambda>n. \<not> skipped n) (map fst LEGACY_PROPS_table)"
  by code_simp

lemma legacy_not_skipped: "LEGACY_PROPS name = Some desc \<Longrightarrow> \<not> skipped name"
proof -
  assume "LEGACY_PROPS name = Some desc"
  then have "(name, desc) \<in> set LEGACY_PROPS_table"
    by (simp add: LEGACY_PROPS_def map_of_SomeD)
  with legacy_names_ok show ?thesis by (auto simp: list_all_iff)
qed

lemma forwarder_call:
  assumes "heap st r = Some p" "p_own p ''form_'' = Some (LData (JNode form))"
    "p_own p m = None" "p_proto p m = Some (BMethod f)"
  shows "proxy_invoke eng st r m args = apply_fn eng f (JNode form) args st"
  using assms by (simp add: proxy_invoke_def proxy_member_def call_value_def this_form_def)

lemma restore_last:
  "distinct xs \<Longrightarrow> el \<in> set xs \<Longrightarrow> next_in el xs = None \<Longrightarrow> removeAll el xs @ [el] = xs"
proof (induction el xs rule: next_in.induct)
  case (1 x)
  then show ?case by simp
next
  case (2 x y)
  then show ?case by simp
next
  case (3 x y z zs)
  then show ?case by (auto split: if_splits)
qed

lemma restore_before:
  "distinct xs \<Longrightarrow> el \<in> set xs \<Longrightarrow> next_in el xs = Some s \<Longrightarrow>
     s \<in> set xs \<and> s \<noteq> el \<and> ins_before el s (removeAll el xs) = xs"
proof (induction el xs rule: next_in.induct)
  case (1 x)
  then show ?case by simp
next
  case (2 x y)
  then show ?case by simp
next
  case (3 x y z zs)
  then show ?case by (auto split: if_splits)
qed

lemma read_once_put_back:
  assumes "parentNode st el = Some par" and "el \<in> set (kids st par)"
    and "distinct (kids st par)" and "\<forall>c \<in> set (kids st par). parentNode st c = Some par"
  shows "read_once eng form name (JNode el) st = (form_get eng (detach st el) form name, st)"
proof -
  define st1 where "st1 = detach st el"
  have rc: "removeChild st par el = Inr st1"
    using assms(1) by (simp add: removeChild_def st1_def)
  have st1: "kids st1 = (kids st)(par := removeAll el (kids st par))"
    "parentNode st1 = (parentNode st)(el := None)"
    using assms(1) by (simp_all add: st1_def detach_def)
  have st1': "st1 = st\<lparr>kids := (kids st)(par := removeAll el (kids st par)),
                       parentNode := (parentNode st)(el := None)\<rparr>"
    using assms(1) by (simp add: st1_def detach_def)
  have ns: "nextSibling st el = next_in el (kids st par)"
    using assms(1) by (simp add: nextSibling_def)
  have pn: "(parentNode st)(el \<mapsto> par) = parentNode st"
    using assms(1) by (rule fun_upd_idem)
  have reins: "insertBefore st1 par el (nextSibling st el) = Inr st"
  proof (cases "next_in el (kids st par)")
    case None
    from restore_last [OF assms(3,2) None] assms(1) show ?thesis
      by (simp add: ns None insertBefore_def appendChild_def detach_def Let_def st1' pn)
  next
    case (Some s)
    from restore_before [OF assms(3,2) Some] assms(1,4) show ?thesis
      by (simp add: ns Some insertBefore_def detach_def Let_def st1' pn)
  qed
  show ?thesis
    using assms(1) rc reins by (simp add: read_once_def Let_def st1_def)
qed

section \<open>The form proxy: the claims\<close>









text \<open>
  C8.  Let the element \<open>el\<close> that shadows a property of the form be a child of \<open>par\<close>,
  whose children are distinct and have \<open>par\<close> as their parent.  The block that reads a
  \<open>READ_ONCE\<close> property gives back the page as it was, whatever the read gives: its
  result is that of reading \<open>form[name]\<close> on the page without \<open>el\<close>, an exception
  included, which is the native value of the property when no other field shadows it.
  So a turn of the loop of \<open>setupLegacyProxy\<close> on such a name leaves the children and the
  parent of every node as they were, and ends in the error of the read if it throws.
\<close>

theorem read_once_restores_children:
  assumes "parentNode st el = Some par" and "el \<in> set (kids st par)"
    and "distinct (kids st par)" and "\<forall>c \<in> set (kids st par). parentNode st c = Some par"
  shows "read_once eng form name (JNode el) st = (form_get eng (detach st el) form name, st)
    \<and> (named_candidates (detach st el) form name = [] \<longrightarrow>
          fst (read_once eng form name (JNode el) st) = native_get eng (detach st el) form name)
    \<and> (\<forall>r p desc. heap st r = Some p \<and> \<not> in_proxy p name
          \<and> LEGACY_PROPS name = Some desc \<and> access desc = READ_ONCE
          \<and> form_get eng st form name = Inr (JNode el) \<longrightarrow>
          kids (snd (legacy_step eng form r name st)) = kids st
          \<and> parentNode (snd (legacy_step eng form r name st)) = parentNode st
          \<and> fst (legacy_step eng form r name st) =
              (case form_get eng (detach st el) form name of Inl e \<Rightarrow> Some e | Inr a \<Rightarrow> None))"
proof -
  note ro = read_once_put_back [OF assms, of eng form name]
  have nat: "named_candidates (detach st el) form name = [] \<longrightarrow>
          fst (read_once eng form name (JNode el) st) = native_get eng (detach st el) form name"
    by (simp add: ro form_get_def)
  have step: "kids (snd (legacy_step eng form r name st)) = kids st
          \<and> parentNode (snd (legacy_step eng form r name st)) = parentNode st
          \<and> fst (legacy_step eng form r name st) =
              (case form_get eng (detach st el) form name of Inl e \<Rightarrow> Some e | Inr a \<Rightarrow> None)"
    if "heap st r = Some p" "\<not> in_proxy p name" "LEGACY_PROPS name = Some desc"
      "access desc = READ_ONCE" "form_get eng st form name = Inr (JNode el)" for r p desc
    using that legacy_not_skipped [OF that(3)]
    by (cases "form_get eng (detach st el) form name")
       (simp_all add: legacy_step_def ro define_own_page)
  from ro nat step show ?thesis by blast
qed

theorem read_once_restores_children_witness:
  "read_once eng0 0 ''style'' (JNode 1) page_proxy = (Inr (JStr ''native''), page_proxy)
   \<and> fst (legacy_step eng0 0 0 ''encoding'' page_proxy) = Some (Thrown 0)
   \<and> kids (snd (legacy_step eng0 0 0 ''encoding'' page_proxy)) 0 = [1, 2]"
proof -
  have t: "parentNode page_proxy 1 = Some 0" "1 \<in> set (kids page_proxy 0)"
    "parentNode page_proxy 2 = Some 0" "2 \<in> set (kids page_proxy 0)"
    "distinct (kids page_proxy 0)" "\<forall>c \<in> set (kids page_proxy 0). parentNode page_proxy c = Some 0"
    "kids page_proxy 0 = [1, 2]"
    by (simp_all add: page_proxy_def page0_def)
  have f: "form_get eng0 (detach page_proxy 1) 0 ''style'' = Inr (JStr ''native'')"
    "form_get eng0 (detach page_proxy 2) 0 ''encoding'' = Inl (Thrown 0)"
    "form_get eng0 page_proxy 0 ''encoding'' = Inr (JNode 2)"
    "\<not> in_proxy (new_FormProxy FormProxyProto0 0) ''encoding''"
    "LEGACY_PROPS ''encoding'' = Some \<lparr>access = READ_ONCE, attr = None, ltype = None, def = None\<rparr>"
    by code_simp+
  have h: "heap page_proxy 0 = Some (new_FormProxy FormProxyProto0 0)"
    by (simp add: page_proxy_def)
  show ?thesis
    using read_once_restores_children [OF t(1,2,5,6), of eng0 0 "''style''"] read_once_restores_children [OF t(3,4,5,6), of eng0 0 "''encoding''"]
      f h t(7)
    by simp
qed

text \<open>
  C10.  The \<open>TOGGLE\<close> entries of \<open>LEGACY_PROPS\<close> are \<open>hidden\<close> and \<open>noValidate\<close>, both
  with the default \<open>false\<close>.  On a proxy with the attribute accessor that
  \<open>setupLegacyProxy\<close> defines for such a name, and whose \<open>getAttribute\<close>,
  \<open>setAttribute\<close> and \<open>removeAttribute\<close> forward to the native methods, writing any
  value \<open>v\<close> and reading back gives the boolean \<open>truthy v\<close>: a truthy \<open>v\<close> stores the
  empty attribute, a falsy \<open>v\<close> removes the attribute.
\<close>

theorem toggle_round_trip:
  assumes "LEGACY_PROPS name = Some desc" and "ltype desc = Some TOGGLE"
    and "heap st r = Some p" and "p_own p ''form_'' = Some (LData (JNode form))"
    and "p_own p name = Some (LAttr (attr_of desc name) desc)"
    and "p_own p ''getAttribute'' = None"
    and "p_proto p ''getAttribute'' = Some (BMethod NGetAttribute)"
    and "p_own p ''setAttribute'' = None"
    and "p_proto p ''setAttribute'' = Some (BMethod NSetAttribute)"
    and "p_own p ''removeAttribute'' = None"
    and "p_proto p ''removeAttribute'' = Some (BMethod NRemoveAttribute)"
  shows "name \<in> {''hidden'', ''noValidate''}
    \<and> (\<exists>d. LEGACY_PROPS ''hidden'' = Some d \<and> ltype d = Some TOGGLE)
    \<and> (\<exists>d. LEGACY_PROPS ''noValidate'' = Some d \<and> ltype d = Some TOGGLE)
    \<and> def desc = Some (JBool False)
    \<and> (\<exists>st1. proxy_set eng st r name v = (Inr v, st1)
          \<and> attrs st1 form (attr_of desc name) = (if truthy v then Some [] else None)
          \<and> proxy_get eng st1 r name = (Inr (JBool (truthy v)), st1))"
proof -
  note tc = toggle_cases [OF assms(1,2)]
  define a where "a = attr_of desc name"
  have low: "toLowerCase a = a"
    using tc lower_attr by (auto simp: a_def)
  have tab: "(\<exists>d. LEGACY_PROPS ''hidden'' = Some d \<and> ltype d = Some TOGGLE)
    \<and> (\<exists>d. LEGACY_PROPS ''noValidate'' = Some d \<and> ltype d = Some TOGGLE)"
    by (simp add: LEGACY_PROPS_def LEGACY_PROPS_table_def)
  define st1 where "st1 = (if truthy v then setAttribute st form a [] else removeAttribute st form a)"
  have h1: "heap st1 r = Some p"
    using assms(3) by (simp add: st1_def setAttribute_def removeAttribute_def)
  have set: "legacy_attr_set eng st r a desc v = (Inr JUndefined, st1)"
    using assms(2) low
    by (simp add: legacy_attr_set_def Let_def st1_def
        forwarder_call [OF assms(3,4,8,9)] forwarder_call [OF assms(3,4,10,11)])
  have at: "attrs st1 form a = (if truthy v then Some [] else None)"
    by (simp add: st1_def setAttribute_def removeAttribute_def)
  have get: "legacy_attr_get eng st1 r a desc = (Inr (JBool (truthy v)), st1)"
    using assms(2) low at tc
    by (simp add: legacy_attr_get_def forwarder_call [OF h1 assms(4,6,7)] getAttribute_def
        attr_val_def)
  have "proxy_set eng st r name v = (Inr v, st1)"
    using assms(3,5) set by (simp add: proxy_set_def a_def)
  moreover have "proxy_get eng st1 r name = (Inr (JBool (truthy v)), st1)"
    using h1 assms(5) get by (simp add: proxy_get_def a_def)
  ultimately show ?thesis
    using tc tab at unfolding a_def by auto
qed

theorem toggle_round_trip_witness:
  "\<exists>st1. proxy_set eng0 (snd (installFormProxy eng0 0 page_legacy)) 0 ''hidden'' (JNum 5)
            = (Inr (JNum 5), st1)
         \<and> attrs st1 0 ''hidden'' = Some []
         \<and> proxy_get eng0 st1 0 ''hidden'' = (Inr (JBool True), st1)"
proof -
  define st where "st = snd (installFormProxy eng0 0 page_legacy)"
  define p where "p = the (heap st 0)"
  define desc where "desc = the (LEGACY_PROPS ''hidden'')"
  have d: "LEGACY_PROPS ''hidden'' = Some desc" "ltype desc = Some TOGGLE"
    "attr_of desc ''hidden'' = ''hidden''"
    unfolding desc_def by code_simp+
  have h: "heap st 0 = Some p"
  proof -
    have "heap (snd (installFormProxy eng0 0 page_legacy)) 0 \<noteq> None" by code_simp
    then show ?thesis by (auto simp: p_def st_def)
  qed
  have o: "p_own p ''form_'' = Some (LData (JNode 0))"
    "p_own p ''hidden'' = Some (LAttr (attr_of desc ''hidden'') desc)"
    "p_own p ''getAttribute'' = None" "p_proto p ''getAttribute'' = Some (BMethod NGetAttribute)"
    "p_own p ''setAttribute'' = None" "p_proto p ''setAttribute'' = Some (BMethod NSetAttribute)"
    "p_own p ''removeAttribute'' = None"
    "p_proto p ''removeAttribute'' = Some (BMethod NRemoveAttribute)"
    unfolding p_def st_def desc_def by code_simp+
  show ?thesis
    using toggle_round_trip [OF d(1,2) h o, of eng0 "JNum 5"] by (simp add: d(3) st_def)
qed

end
